theory Spec2Isabelle
  imports Complex_Main "HOL-Library.Log_Nat" "HOL-Library.Char_ord" "HOL-Library.List_Lexorder"
begin

section \<open>Python floats\<close>

text \<open>
  The calculator computes on Python \<^verbatim>\<open>float\<close>s, which are IEEE-754 binary64 numbers. A finite
  double is a rational number, so a double is modelled as its exact value, with the negative
  zero, the two infinities and NaN as values of their own. \<open>Fin 0\<close> is the positive zero.
  Every arithmetic operation computes the exact rational result and rounds it with \<open>rnd\<close>
  (round to nearest, ties to even, 53 bits of precision, exponents from -1074 to 1023,
  overflow to an infinity).
\<close>

datatype double = Fin rat | NegZero | PInf | NInf | NaN

definition sq :: "rat \<Rightarrow> rat" where
  "sq x = x * x"

function p2 :: "int \<Rightarrow> rat" where
  "p2 k = (if k \<le> 0 then 1
     else if even k then sq (p2 (k div 2)) else 2 * sq (p2 (k div 2)))"
  by pat_completeness auto
termination
  by (relation "measure nat") auto

declare p2.simps [simp del]

definition pow2 :: "int \<Rightarrow> rat" where
  "pow2 k = (if 0 \<le> k then p2 k else 1 / p2 (- k))"

text \<open>\<open>ilog2 a\<close> is the exponent \<open>e\<close> with \<open>2^e \<le> a < 2^(e+1)\<close>, for a positive \<open>a\<close>.\<close>

definition ilog2 :: "rat \<Rightarrow> int" where
  "ilog2 a = (if 1 \<le> a then bitlen \<lfloor>a\<rfloor> - 1 else - bitlen (\<lceil>1 / a\<rceil> - 1))"

definition round_half_even :: "rat \<Rightarrow> int" where
  "round_half_even q = (let f = \<lfloor>q\<rfloor>; d = q - of_int f
     in if d < 1 / 2 then f else if 1 / 2 < d then f + 1
        else if even f then f else f + 1)"

definition max_double_bound :: rat where
  "max_double_bound = 179769313486231590772930519078902473361797697894230657273430081157732675805500963132708477322407536021120113879871393357658789768814416622492847430639474124377767893424865485276302219601246094119453082952085005768838150682342462881473913110540827237163350510684586298239947245938479716304835356329624224137216"

definition rnd :: "rat \<Rightarrow> double" where
  "rnd q = (if q = 0 then Fin 0 else
     let a = \<bar>q\<bar>;
         p = max (ilog2 a - 52) (- 1074);
         m = round_half_even (a / pow2 p);
         r = of_int m * pow2 p
     in if max_double_bound \<le> r then (if 0 < q then PInf else NInf)
        else if m = 0 then (if 0 < q then Fin 0 else NegZero)
        else Fin (if 0 < q then r else - r))"

fun is_nan :: "double \<Rightarrow> bool" where
  "is_nan NaN = True"
| "is_nan _ = False"

fun is_inf :: "double \<Rightarrow> bool" where
  "is_inf PInf = True"
| "is_inf NInf = True"
| "is_inf _ = False"

fun is_zero :: "double \<Rightarrow> bool" where
  "is_zero (Fin q) = (q = 0)"
| "is_zero NegZero = True"
| "is_zero _ = False"

fun signbit :: "double \<Rightarrow> bool" where
  "signbit (Fin q) = (q < 0)"
| "signbit NegZero = True"
| "signbit NInf = True"
| "signbit _ = False"

fun val :: "double \<Rightarrow> rat" where
  "val (Fin q) = q"
| "val _ = 0"

definition signed_zero :: "bool \<Rightarrow> double" where
  "signed_zero neg = (if neg then NegZero else Fin 0)"

definition signed_inf :: "bool \<Rightarrow> double" where
  "signed_inf neg = (if neg then NInf else PInf)"

fun dneg :: "double \<Rightarrow> double" where
  "dneg (Fin q) = (if q = 0 then NegZero else Fin (- q))"
| "dneg NegZero = Fin 0"
| "dneg PInf = NInf"
| "dneg NInf = PInf"
| "dneg NaN = NaN"

fun dabs :: "double \<Rightarrow> double" where
  "dabs (Fin q) = Fin \<bar>q\<bar>"
| "dabs NegZero = Fin 0"
| "dabs PInf = PInf"
| "dabs NInf = PInf"
| "dabs NaN = NaN"

definition copysign :: "double \<Rightarrow> double \<Rightarrow> double" where
  "copysign x y = (if signbit x = signbit y then x else dneg x)"

text \<open>The comparisons \<^verbatim>\<open><\<close> and \<^verbatim>\<open>==\<close>: false whenever an operand is NaN; the two zeros are equal.\<close>

definition dless :: "double \<Rightarrow> double \<Rightarrow> bool" where
  "dless a b = (if is_nan a \<or> is_nan b then False
     else if a = PInf \<or> b = NInf then False
     else if a = NInf \<or> b = PInf then True
     else val a < val b)"

definition deq :: "double \<Rightarrow> double \<Rightarrow> bool" where
  "deq a b = (if is_nan a \<or> is_nan b then False
     else if is_inf a \<or> is_inf b then a = b
     else val a = val b)"

definition dadd :: "double \<Rightarrow> double \<Rightarrow> double" where
  "dadd a b = (if is_nan a \<or> is_nan b then NaN
     else if is_inf a then (if is_inf b \<and> a \<noteq> b then NaN else a)
     else if is_inf b then b
     else if val a + val b = 0 then signed_zero (signbit a \<and> signbit b)
     else rnd (val a + val b))"

definition dsub :: "double \<Rightarrow> double \<Rightarrow> double" where
  "dsub a b = dadd a (dneg b)"

definition dmul :: "double \<Rightarrow> double \<Rightarrow> double" where
  "dmul a b = (if is_nan a \<or> is_nan b then NaN
     else if is_inf a \<or> is_inf b then
       (if is_zero a \<or> is_zero b then NaN else signed_inf (signbit a \<noteq> signbit b))
     else if val a * val b = 0 then signed_zero (signbit a \<noteq> signbit b)
     else rnd (val a * val b))"

text \<open>IEEE division; Python only reaches it with a divisor that is not zero.\<close>

definition ddiv :: "double \<Rightarrow> double \<Rightarrow> double" where
  "ddiv a b = (if is_nan a \<or> is_nan b then NaN
     else if is_inf a then (if is_inf b then NaN else signed_inf (signbit a \<noteq> signbit b))
     else if is_inf b then signed_zero (signbit a \<noteq> signbit b)
     else if is_zero b then (if is_zero a then NaN else signed_inf (signbit a \<noteq> signbit b))
     else if val a = 0 then signed_zero (signbit a \<noteq> signbit b)
     else rnd (val a / val b))"

fun dfloor :: "double \<Rightarrow> double" where
  "dfloor (Fin q) = Fin (of_int \<lfloor>q\<rfloor>)"
| "dfloor d = d"

text \<open>
  C's \<^verbatim>\<open>fmod\<close>: the exact remainder of the division truncated toward zero, with the sign of
  the dividend; NaN for an infinite dividend or a zero divisor.
\<close>

definition fmod :: "double \<Rightarrow> double \<Rightarrow> double" where
  "fmod x y = (if is_nan x \<or> is_nan y \<or> is_inf x \<or> is_zero y then NaN
     else if is_inf y \<or> is_zero x then x
     else let r = \<bar>val x\<bar> - of_int \<lfloor>\<bar>val x\<bar> / \<bar>val y\<bar>\<rfloor> * \<bar>val y\<bar>
          in if r = 0 then signed_zero (signbit x)
             else Fin (if signbit x then - r else r))"

section \<open>Exceptions and values\<close>

text \<open>
  The program defines one exception class, \<^verbatim>\<open>EvalError\<close>, carrying a message. Every other
  exception is one of Python's built-in classes, raised by the interpreter or a library; it
  is kept with its class and message. The texts of the built-in messages are those of
  CPython 3.8; the theorems depend on the class only.
\<close>

datatype exc_kind =
  AttributeError | ValueError | TypeError | OverflowError | ZeroDivisionError | IndexError
  | SyntaxError | RecursionError | MemoryError

type_synonym builtin_exc = "exc_kind \<times> string"

datatype exc = EvalError string | PyExc exc_kind string

text \<open>
  \<^verbatim>\<open>safe_eval\<close> is annotated to return a float, but \<^verbatim>\<open>a ** b\<close> on floats returns a complex
  number for a negative base and a fractional exponent, and nothing converts the result of
  a binary operation. A value is therefore a float or a complex number.
\<close>

datatype pyval = PyFloat double | PyComplex double double

fun type_name_val :: "pyval \<Rightarrow> string" where
  "type_name_val (PyFloat _) = ''float''"
| "type_name_val (PyComplex _ _) = ''complex''"

section \<open>Syntax trees\<close>

text \<open>
  The trees are those of Python's \<^verbatim>\<open>ast\<close> module: \<^verbatim>\<open>ast.parse(expr, mode="eval")\<close> returns an
  \<open>Expression\<close> around an expression node. The node classes that \<^verbatim>\<open>safe_eval\<close> tests for are
  modelled with their fields, and so are the classes of the constructs it is meant to reject.
\<close>

datatype operator =
  Add | Sub | Mult | MatMult | Div | Mod | Pow | LShift | RShift | BitOr | BitXor | BitAnd
  | FloorDiv

datatype unaryop = Invert | Not | UAdd | USub

datatype constant_value =
  CInt int | CBool bool | CFloat double | CComplex double double | CStr string
  | CBytes string | CNone | CEllipsis

datatype node =
  Expression node
  | Constant constant_value
  | Name string
  | BinOp node operator node
  | UnaryOp unaryop node
  | Call node "node list" "(string option \<times> node) list"
  | Expr node
  | Attribute node string
  | Subscript node node
  | Compare node "string list" "node list"
  | BoolOp string "node list"
  | IfExp node node node
  | Lambda "string list" node
  | NamedExpr node node
  | ListNode "node list"
  | TupleNode "node list"
  | SetNode "node list"
  | DictNode "node list" "node list"
  | Starred node
  | JoinedStr "node list"

fun operator_name :: "operator \<Rightarrow> string" where
  "operator_name Add = ''Add''"
| "operator_name Sub = ''Sub''"
| "operator_name Mult = ''Mult''"
| "operator_name MatMult = ''MatMult''"
| "operator_name Div = ''Div''"
| "operator_name Mod = ''Mod''"
| "operator_name Pow = ''Pow''"
| "operator_name LShift = ''LShift''"
| "operator_name RShift = ''RShift''"
| "operator_name BitOr = ''BitOr''"
| "operator_name BitXor = ''BitXor''"
| "operator_name BitAnd = ''BitAnd''"
| "operator_name FloorDiv = ''FloorDiv''"

fun operator_symbol :: "operator \<Rightarrow> string" where
  "operator_symbol Add = ''+''"
| "operator_symbol Sub = ''-''"
| "operator_symbol Mult = ''*''"
| "operator_symbol MatMult = ''@''"
| "operator_symbol Div = ''/''"
| "operator_symbol Mod = ''%''"
| "operator_symbol Pow = ''** or pow()''"
| "operator_symbol LShift = ''<<''"
| "operator_symbol RShift = ''>>''"
| "operator_symbol BitOr = ''|''"
| "operator_symbol BitXor = ''^''"
| "operator_symbol BitAnd = ''&''"
| "operator_symbol FloorDiv = ''//''"

fun unaryop_name :: "unaryop \<Rightarrow> string" where
  "unaryop_name Invert = ''Invert''"
| "unaryop_name Not = ''Not''"
| "unaryop_name UAdd = ''UAdd''"
| "unaryop_name USub = ''USub''"

text \<open>\<^verbatim>\<open>type(node.value).__name__\<close>\<close>

fun type_name :: "constant_value \<Rightarrow> string" where
  "type_name (CInt _) = ''int''"
| "type_name (CBool _) = ''bool''"
| "type_name (CFloat _) = ''float''"
| "type_name (CComplex _ _) = ''complex''"
| "type_name (CStr _) = ''str''"
| "type_name (CBytes _) = ''bytes''"
| "type_name CNone = ''NoneType''"
| "type_name CEllipsis = ''ellipsis''"

section \<open>The interpreter and its libraries\<close>

text \<open>
  What the program calls but does not define is a parameter of the model: the parser
  \<^verbatim>\<open>ast.parse\<close>, the functions of the \<^verbatim>\<open>math\<close> module that are not exact (the square root,
  the transcendental functions and the conversions between degrees and radians), the C
  library's \<^verbatim>\<open>pow\<close>, and the arithmetic on complex numbers. A library function returns a
  value or raises a built-in exception; it cannot raise \<^verbatim>\<open>EvalError\<close>.
  \<^item> \<open>ast_parse s\<close>: \<^verbatim>\<open>ast.parse(s, mode="eval")\<close>;
  \<^item> \<open>math_fn name x\<close>: \<^verbatim>\<open>math.<name>(x)\<close> on one float;
  \<^item> \<open>math_log_base x b\<close>: \<^verbatim>\<open>math.log(x, b)\<close> on two floats;
  \<^item> \<open>math_type_error name args\<close>: the message of the \<^verbatim>\<open>TypeError\<close> that \<^verbatim>\<open>math.<name>(*args)\<close>
    raises for an argument list it does not accept;
  \<^item> \<open>libm_pow x y\<close>: C's \<^verbatim>\<open>pow(x, y)\<close> for finite \<open>x > 0\<close>, \<open>x \<noteq> 1\<close> and finite \<open>y \<noteq> 0\<close>, with
    the exception Python raises when \<^verbatim>\<open>errno\<close> is set;
  \<^item> \<open>complex_pow v w\<close>: \<^verbatim>\<open>v ** w\<close> where the result is computed on complex numbers;
  \<^item> \<open>complex_arith op v w\<close>: \<^verbatim>\<open>+\<close>, \<^verbatim>\<open>-\<close>, \<^verbatim>\<open>*\<close> and \<^verbatim>\<open>/\<close> (by a divisor that is not zero) with a
    complex operand;
  \<^item> \<open>complex_abs re im\<close>: \<^verbatim>\<open>abs\<close> of a complex number.
\<close>

record runtime =
  ast_parse :: "string \<Rightarrow> builtin_exc + node"
  math_fn :: "string \<Rightarrow> double \<Rightarrow> builtin_exc + double"
  math_log_base :: "double \<Rightarrow> double \<Rightarrow> builtin_exc + double"
  math_type_error :: "string \<Rightarrow> pyval list \<Rightarrow> string"
  libm_pow :: "double \<Rightarrow> double \<Rightarrow> builtin_exc + double"
  complex_pow :: "pyval \<Rightarrow> pyval \<Rightarrow> builtin_exc + pyval"
  complex_arith :: "operator \<Rightarrow> pyval \<Rightarrow> pyval \<Rightarrow> pyval"
  complex_abs :: "double \<Rightarrow> double \<Rightarrow> builtin_exc + double"

section \<open>Arithmetic of Python floats\<close>

text \<open>\<^verbatim>\<open>float(n)\<close> for an int: the nearest double, \<^verbatim>\<open>OverflowError\<close> when there is none.\<close>

definition int_to_float :: "int \<Rightarrow> builtin_exc + double" where
  "int_to_float n = (let d = rnd (of_int n)
     in if is_inf d then Inl (OverflowError, ''int too large to convert to float'')
        else Inr d)"

text \<open>\<^verbatim>\<open>int(x)\<close>, \<^verbatim>\<open>round(x)\<close>, \<^verbatim>\<open>math.ceil(x)\<close> and \<^verbatim>\<open>math.floor(x)\<close> return an int.\<close>

definition float_to_int :: "(rat \<Rightarrow> int) \<Rightarrow> double \<Rightarrow> builtin_exc + int" where
  "float_to_int conv x =
    (if is_nan x then Inl (ValueError, ''cannot convert float NaN to integer'')
     else if is_inf x then Inl (OverflowError, ''cannot convert float infinity to integer'')
     else Inr (conv (val x)))"

definition trunc :: "rat \<Rightarrow> int" where
  "trunc q = (if 0 \<le> q then \<lfloor>q\<rfloor> else \<lceil>q\<rceil>)"

definition float_div :: "double \<Rightarrow> double \<Rightarrow> builtin_exc + double" where
  "float_div a b = (if is_zero b then Inl (ZeroDivisionError, ''float division by zero'')
     else Inr (ddiv a b))"

text \<open>
  \<^verbatim>\<open>float_rem\<close> of CPython's \<^verbatim>\<open>floatobject.c\<close>: \<^verbatim>\<open>fmod\<close>, then the divisor is added when the
  remainder is not zero and its sign differs from the divisor's; a zero remainder takes the
  sign of the divisor.
\<close>

definition float_rem :: "double \<Rightarrow> double \<Rightarrow> builtin_exc + double" where
  "float_rem vx wx = (if is_zero wx then Inl (ZeroDivisionError, ''float modulo'')
     else let m = fmod vx wx
          in if \<not> is_zero m
             then (if dless wx (Fin 0) \<noteq> dless m (Fin 0) then Inr (dadd m wx) else Inr m)
             else Inr (copysign (Fin 0) wx))"

text \<open>\<^verbatim>\<open>float_floor_div\<close>: the quotient of \<^verbatim>\<open>float_divmod\<close>.\<close>

definition float_floor_div :: "double \<Rightarrow> double \<Rightarrow> builtin_exc + double" where
  "float_floor_div vx wx = (if is_zero wx then Inl (ZeroDivisionError, ''float divmod()'')
     else let m = fmod vx wx;
              d0 = ddiv (dsub vx m) wx;
              d = (if \<not> is_zero m \<and> dless wx (Fin 0) \<noteq> dless m (Fin 0)
                   then dsub d0 (Fin 1) else d0)
          in if \<not> is_zero d
             then (let f = dfloor d
                   in if dless (Fin (1 / 2)) (dsub d f) then Inr (dadd f (Fin 1)) else Inr f)
             else Inr (copysign (Fin 0) (ddiv vx wx)))"

text \<open>\<^verbatim>\<open>DOUBLE_IS_ODD_INTEGER(x)\<close> is \<^verbatim>\<open>fmod(fabs(x), 2.0) == 1.0\<close>.\<close>

definition is_odd_integer :: "double \<Rightarrow> bool" where
  "is_odd_integer x = deq (fmod (dabs x) (Fin 2)) (Fin 1)"

text \<open>
  \<^verbatim>\<open>float_pow\<close> of \<^verbatim>\<open>floatobject.c\<close>, case by case: the special cases are decided before C's
  \<^verbatim>\<open>pow\<close> is called, a negative base with a fractional exponent is handed to the complex
  power, and \<^verbatim>\<open>pow\<close> is called on the absolute value of the base.
\<close>

definition float_pow :: "runtime \<Rightarrow> double \<Rightarrow> double \<Rightarrow> builtin_exc + pyval" where
  "float_pow rt iv iw =
    (if is_zero iw then Inr (PyFloat (Fin 1))
     else if is_nan iv then Inr (PyFloat iv)
     else if is_nan iw then Inr (PyFloat (if deq iv (Fin 1) then Fin 1 else iw))
     else if is_inf iw then
       (if deq (dabs iv) (Fin 1) then Inr (PyFloat (Fin 1))
        else if dless (Fin 0) iw = dless (Fin 1) (dabs iv) then Inr (PyFloat (dabs iw))
        else Inr (PyFloat (Fin 0)))
     else if is_inf iv then
       (if dless (Fin 0) iw
        then Inr (PyFloat (if is_odd_integer iw then iv else dabs iv))
        else Inr (PyFloat (if is_odd_integer iw then copysign (Fin 0) iv else Fin 0)))
     else if is_zero iv then
       (if dless iw (Fin 0)
        then Inl (ZeroDivisionError, ''0.0 cannot be raised to a negative power'')
        else Inr (PyFloat (if is_odd_integer iw then iv else Fin 0)))
     else if dless iv (Fin 0) \<and> \<not> deq iw (dfloor iw)
       then complex_pow rt (PyFloat iv) (PyFloat iw)
     else let negate_result = (dless iv (Fin 0) \<and> is_odd_integer iw);
              b = (if dless iv (Fin 0) then dneg iv else iv)
          in if deq b (Fin 1) then Inr (PyFloat (if negate_result then Fin (- 1) else Fin 1))
             else (case libm_pow rt b iw of
                     Inl e \<Rightarrow> Inl e
                   | Inr ix \<Rightarrow> Inr (PyFloat (if negate_result then dneg ix else ix))))"

fun lift_float :: "builtin_exc + double \<Rightarrow> builtin_exc + pyval" where
  "lift_float (Inl e) = Inl e"
| "lift_float (Inr d) = Inr (PyFloat d)"

text \<open>A name between single quotes, as Python's messages print it.\<close>

definition quoted :: "string \<Rightarrow> string" where
  "quoted s = [CHR 0x27] @ s @ [CHR 0x27]"

text \<open>A binary operation with a complex operand, or one that floats do not have.\<close>

definition unsupported_operand :: "operator \<Rightarrow> pyval \<Rightarrow> pyval \<Rightarrow> builtin_exc" where
  "unsupported_operand op v w = (TypeError, ''unsupported operand type(s) for ''
     @ operator_symbol op @ '': '' @ quoted (type_name_val v) @ '' and ''
     @ quoted (type_name_val w))"

fun is_zero_val :: "pyval \<Rightarrow> bool" where
  "is_zero_val (PyFloat d) = is_zero d"
| "is_zero_val (PyComplex re im) = (is_zero re \<and> is_zero im)"

text \<open>
  Complex numbers have no \<^verbatim>\<open>%\<close> and no \<^verbatim>\<open>//\<close>, a division by zero raises, and the rest is
  the runtime's complex arithmetic.
\<close>

fun complex_binop :: "runtime \<Rightarrow> operator \<Rightarrow> pyval \<Rightarrow> pyval \<Rightarrow> builtin_exc + pyval" where
  "complex_binop rt Add v w = Inr (complex_arith rt Add v w)"
| "complex_binop rt Sub v w = Inr (complex_arith rt Sub v w)"
| "complex_binop rt Mult v w = Inr (complex_arith rt Mult v w)"
| "complex_binop rt Div v w = (if is_zero_val w
     then Inl (ZeroDivisionError, ''complex division by zero'')
     else Inr (complex_arith rt Div v w))"
| "complex_binop rt Pow v w = complex_pow rt v w"
| "complex_binop rt op v w = Inl (unsupported_operand op v w)"

text \<open>The seven operations of \<^verbatim>\<open>ALLOWED_BINARY_OPS\<close> on two floats.\<close>

fun float_binop :: "runtime \<Rightarrow> operator \<Rightarrow> double \<Rightarrow> double \<Rightarrow> builtin_exc + pyval" where
  "float_binop rt Add a b = Inr (PyFloat (dadd a b))"
| "float_binop rt Sub a b = Inr (PyFloat (dsub a b))"
| "float_binop rt Mult a b = Inr (PyFloat (dmul a b))"
| "float_binop rt Div a b = lift_float (float_div a b)"
| "float_binop rt Mod a b = lift_float (float_rem a b)"
| "float_binop rt Pow a b = float_pow rt a b"
| "float_binop rt FloorDiv a b = lift_float (float_floor_div a b)"
| "float_binop rt op a b = Inl (unsupported_operand op (PyFloat a) (PyFloat b))"

fun binop :: "runtime \<Rightarrow> operator \<Rightarrow> pyval \<Rightarrow> pyval \<Rightarrow> builtin_exc + pyval" where
  "binop rt op (PyFloat a) (PyFloat b) = float_binop rt op a b"
| "binop rt op v w = complex_binop rt op v w"

section \<open>The evaluator\<close>

text \<open>
  \<^verbatim>\<open>ALLOWED_BINARY_OPS\<close> and \<^verbatim>\<open>ALLOWED_UNARY_OPS\<close> are dictionaries from the operator class to
  a function; \<^verbatim>\<open>.get\<close> returns \<^verbatim>\<open>None\<close> for a class that is not a key.
\<close>

fun ALLOWED_BINARY_OPS ::
  "runtime \<Rightarrow> operator \<Rightarrow> (pyval \<Rightarrow> pyval \<Rightarrow> builtin_exc + pyval) option" where
  "ALLOWED_BINARY_OPS rt Add = Some (binop rt Add)"
| "ALLOWED_BINARY_OPS rt Sub = Some (binop rt Sub)"
| "ALLOWED_BINARY_OPS rt Mult = Some (binop rt Mult)"
| "ALLOWED_BINARY_OPS rt Div = Some (binop rt Div)"
| "ALLOWED_BINARY_OPS rt Mod = Some (binop rt Mod)"
| "ALLOWED_BINARY_OPS rt Pow = Some (binop rt Pow)"
| "ALLOWED_BINARY_OPS rt FloorDiv = Some (binop rt FloorDiv)"
| "ALLOWED_BINARY_OPS rt _ = None"

fun negate :: "pyval \<Rightarrow> pyval" where
  "negate (PyFloat x) = PyFloat (dneg x)"
| "negate (PyComplex re im) = PyComplex (dneg re) (dneg im)"

fun ALLOWED_UNARY_OPS :: "unaryop \<Rightarrow> (pyval \<Rightarrow> pyval) option" where
  "ALLOWED_UNARY_OPS UAdd = Some (\<lambda>a. a)"
| "ALLOWED_UNARY_OPS USub = Some negate"
| "ALLOWED_UNARY_OPS _ = None"

text \<open>The dictionary \<^verbatim>\<open>constants\<close>: \<^verbatim>\<open>math.pi\<close>, \<^verbatim>\<open>math.e\<close>, \<^verbatim>\<open>math.tau\<close> and \<^verbatim>\<open>math.inf\<close> as doubles.\<close>

definition constants :: "string \<rightharpoonup> double" where
  "constants = map_of
    [(''pi'', Fin (884279719003555 / 281474976710656)),
     (''e'', Fin (6121026514868073 / 2251799813685248)),
     (''tau'', Fin (884279719003555 / 140737488355328)),
     (''inf'', PInf)]"

text \<open>The set \<^verbatim>\<open>allowed_functions\<close>, in the order of the source.\<close>

definition allowed_functions :: "string list" where
  "allowed_functions =
    [''sqrt'', ''sin'', ''cos'', ''tan'', ''log'', ''log10'', ''exp'',
     ''abs'', ''ceil'', ''floor'', ''round'', ''degrees'', ''radians'',
     ''asin'', ''acos'', ''atan'', ''sinh'', ''cosh'', ''tanh'']"

fun join :: "string \<Rightarrow> string list \<Rightarrow> string" where
  "join sep [] = []"
| "join sep [x] = x"
| "join sep (x # y # ys) = x @ sep @ join sep (y # ys)"

text \<open>
  The message of the last \<^verbatim>\<open>raise\<close> of the \<^verbatim>\<open>Call\<close> branch:
  \<^verbatim>\<open>', '.join(sorted(allowed_functions))\<close> after a fixed text. Python sorts strings by code
  point, lexicographically.
\<close>

definition call_not_allowed :: exc where
  "call_not_allowed = EvalError
    (''Function calls are not allowed except math functions: ''
      @ join '', '' (sort allowed_functions))"

text \<open>\<^verbatim>\<open>float(round(x))\<close> with the built-in \<^verbatim>\<open>round\<close> of one argument.\<close>

fun round_builtin :: "pyval \<Rightarrow> builtin_exc + double" where
  "round_builtin (PyFloat x) =
    (case float_to_int round_half_even x of Inl e \<Rightarrow> Inl e | Inr n \<Rightarrow> int_to_float n)"
| "round_builtin (PyComplex re im) =
    Inl (TypeError, ''type complex doesn'' @ [CHR 0x27] @ ''t define __round__ method'')"

text \<open>\<^verbatim>\<open>float(abs(args[0]))\<close>: the index is not guarded.\<close>

fun abs_builtin :: "runtime \<Rightarrow> pyval list \<Rightarrow> builtin_exc + double" where
  "abs_builtin rt [] = Inl (IndexError, ''list index out of range'')"
| "abs_builtin rt (PyFloat x # _) = Inr (dabs x)"
| "abs_builtin rt (PyComplex re im # _) = complex_abs rt re im"

text \<open>
  \<^verbatim>\<open>float(getattr(math, func_name)(*args))\<close>: \<^verbatim>\<open>math\<close> has no \<^verbatim>\<open>round\<close>; \<^verbatim>\<open>math.log\<close> takes one or
  two floats and every other function exactly one; \<^verbatim>\<open>math.ceil\<close> and \<^verbatim>\<open>math.floor\<close> are exact
  and return an int, which \<^verbatim>\<open>float\<close> converts back.
\<close>

definition math_call :: "runtime \<Rightarrow> string \<Rightarrow> pyval list \<Rightarrow> builtin_exc + double" where
  "math_call rt func_name args =
    (if func_name = ''round''
       then Inl (AttributeError, ''module '' @ quoted ''math'' @ '' has no attribute '' @ quoted ''round'')
     else case args of
       [PyFloat x] \<Rightarrow>
         (if func_name = ''ceil''
            then (case float_to_int ceiling x of Inl e \<Rightarrow> Inl e | Inr n \<Rightarrow> int_to_float n)
          else if func_name = ''floor''
            then (case float_to_int floor x of Inl e \<Rightarrow> Inl e | Inr n \<Rightarrow> int_to_float n)
          else math_fn rt func_name x)
     | [PyFloat x, PyFloat b] \<Rightarrow>
         (if func_name = ''log'' then math_log_base rt x b
          else Inl (TypeError, math_type_error rt func_name args))
     | _ \<Rightarrow> Inl (TypeError, math_type_error rt func_name args))"

text \<open>The body of the \<^verbatim>\<open>try\<close> of the \<^verbatim>\<open>Call\<close> branch.\<close>

definition call_function :: "runtime \<Rightarrow> string \<Rightarrow> pyval list \<Rightarrow> builtin_exc + double" where
  "call_function rt func_name args =
    (if func_name = ''round'' \<and> length args = 1 then round_builtin (hd args)
     else if func_name = ''abs'' then abs_builtin rt args
     else math_call rt func_name args)"

text \<open>\<^verbatim>\<open>except (AttributeError, ValueError, TypeError)\<close>: any other class propagates.\<close>

fun call_result :: "string \<Rightarrow> builtin_exc + double \<Rightarrow> exc + pyval" where
  "call_result func_name (Inr d) = Inr (PyFloat d)"
| "call_result func_name (Inl (k, msg)) =
    (if k = AttributeError \<or> k = ValueError \<or> k = TypeError
     then Inl (EvalError (''Error calling '' @ func_name @ '': '' @ msg))
     else Inl (PyExc k msg))"

text \<open>\<^verbatim>\<open>except Exception\<close> around the binary operation: every built-in exception is caught.\<close>

fun binop_result :: "builtin_exc + pyval \<Rightarrow> exc + pyval" where
  "binop_result (Inr v) = Inr v"
| "binop_result (Inl (k, msg)) = Inl (EvalError (''Error evaluating binary op: '' @ msg))"

text \<open>\<^verbatim>\<open>float(node.value)\<close> for a constant that is an \<^verbatim>\<open>int\<close> (a \<^verbatim>\<open>bool\<close> is one) or a \<^verbatim>\<open>float\<close>.\<close>

fun constant_result :: "constant_value \<Rightarrow> exc + pyval" where
  "constant_result (CInt n) =
    (case int_to_float n of Inl (k, msg) \<Rightarrow> Inl (PyExc k msg) | Inr d \<Rightarrow> Inr (PyFloat d))"
| "constant_result (CBool b) = Inr (PyFloat (if b then Fin 1 else Fin 0))"
| "constant_result (CFloat d) = Inr (PyFloat d)"
| "constant_result c = Inl (EvalError (''Unsupported constant type: '' @ type_name c))"

text \<open>
  \<^verbatim>\<open>safe_eval\<close>, branch by branch. The test \<^verbatim>\<open>isinstance(node, ast.Num)\<close> can only hold for a
  \<open>Constant\<close>, which the branch before it has returned from. A node of no tested class
  reaches \<^verbatim>\<open>isinstance(node, ast.Paren)\<close>; the module \<^verbatim>\<open>ast\<close> has no attribute \<^verbatim>\<open>Paren\<close>, so
  evaluating the test raises \<^verbatim>\<open>AttributeError\<close>, and the last \<^verbatim>\<open>raise EvalError\<close> is never
  reached. The arguments of a call are evaluated by the list comprehension, outside the
  \<^verbatim>\<open>try\<close>; the keywords of the call are not looked at. The depth of Python's call stack is
  not modelled.
\<close>

fun safe_eval :: "runtime \<Rightarrow> node \<Rightarrow> exc + pyval"
  and safe_eval_args :: "runtime \<Rightarrow> node list \<Rightarrow> exc + pyval list" where
  "safe_eval rt (Expression body) = safe_eval rt body"
| "safe_eval rt (Constant c) = constant_result c"
| "safe_eval rt (Name ident) =
    (case constants ident of
       Some v \<Rightarrow> Inr (PyFloat v)
     | None \<Rightarrow> Inl (EvalError (''Undefined variable: '' @ ident)))"
| "safe_eval rt (BinOp l op r) =
    (case safe_eval rt l of
       Inl e \<Rightarrow> Inl e
     | Inr left \<Rightarrow>
        (case safe_eval rt r of
           Inl e \<Rightarrow> Inl e
         | Inr right \<Rightarrow>
            (case ALLOWED_BINARY_OPS rt op of
               None \<Rightarrow> Inl (EvalError (''Operator '' @ operator_name op @ '' not allowed''))
             | Some func \<Rightarrow> binop_result (func left right))))"
| "safe_eval rt (UnaryOp op operand) =
    (case safe_eval rt operand of
       Inl e \<Rightarrow> Inl e
     | Inr v \<Rightarrow>
        (case ALLOWED_UNARY_OPS op of
           None \<Rightarrow> Inl (EvalError (''Unary operator '' @ unaryop_name op @ '' not allowed''))
         | Some func \<Rightarrow> Inr (func v)))"
| "safe_eval rt (Call func args keywords) =
    (case func of
       Name func_name \<Rightarrow>
         (if func_name \<in> set allowed_functions
          then (case safe_eval_args rt args of
                  Inl e \<Rightarrow> Inl e
                | Inr vs \<Rightarrow> call_result func_name (call_function rt func_name vs))
          else Inl call_not_allowed)
     | _ \<Rightarrow> Inl call_not_allowed)"
| "safe_eval rt (Expr v) = safe_eval rt v"
| "safe_eval rt _ = Inl (PyExc AttributeError (''module '' @ quoted ''ast'' @ '' has no attribute '' @ quoted ''Paren''))"
| "safe_eval_args rt [] = Inr []"
| "safe_eval_args rt (a # as) =
    (case safe_eval rt a of
       Inl e \<Rightarrow> Inl e
     | Inr v \<Rightarrow> (case safe_eval_args rt as of Inl e \<Rightarrow> Inl e | Inr vs \<Rightarrow> Inr (v # vs)))"

text \<open>
  \<^verbatim>\<open>evaluate_expression\<close>: only \<^verbatim>\<open>SyntaxError\<close> is caught around the parser; the tree goes to
  \<^verbatim>\<open>safe_eval\<close> as it is.
\<close>

definition evaluate_expression :: "runtime \<Rightarrow> string \<Rightarrow> exc + pyval" where
  "evaluate_expression rt expr =
    (case ast_parse rt expr of
       Inl (k, msg) \<Rightarrow>
         (if k = SyntaxError then Inl (EvalError (''Syntax error: '' @ msg))
          else Inl (PyExc k msg))
     | Inr parsed \<Rightarrow> safe_eval rt parsed)"

section \<open>Formatting\<close>

text \<open>Decimal digits, by recursion on the integer.\<close>

definition digit_char :: "int \<Rightarrow> char" where
  "digit_char d =
    (if d = 0 then CHR ''0'' else if d = 1 then CHR ''1'' else if d = 2 then CHR ''2''
     else if d = 3 then CHR ''3'' else if d = 4 then CHR ''4'' else if d = 5 then CHR ''5''
     else if d = 6 then CHR ''6'' else if d = 7 then CHR ''7'' else if d = 8 then CHR ''8''
     else CHR ''9'')"

function str_nat :: "int \<Rightarrow> string" where
  "str_nat n = (if n < 10 then [digit_char n] else str_nat (n div 10) @ [digit_char (n mod 10)])"
  by pat_completeness auto
termination
  by (relation "measure nat") auto

declare str_nat.simps [simp del]

text \<open>\<^verbatim>\<open>str(n)\<close> for an int.\<close>

definition str_int :: "int \<Rightarrow> string" where
  "str_int n = (if n < 0 then CHR ''-'' # str_nat (- n) else str_nat n)"

text \<open>The number of decimal digits of a positive integer, and the powers of ten.\<close>

function dlen :: "int \<Rightarrow> int" where
  "dlen n = (if n \<le> 0 then 0 else dlen (n div 10) + 1)"
  by pat_completeness auto
termination
  by (relation "measure nat") auto

declare dlen.simps [simp del]

function p10 :: "int \<Rightarrow> rat" where
  "p10 k = (if k \<le> 0 then 1
     else if even k then sq (p10 (k div 2)) else 10 * sq (p10 (k div 2)))"
  by pat_completeness auto
termination
  by (relation "measure nat") auto

declare p10.simps [simp del]

definition pow10 :: "int \<Rightarrow> rat" where
  "pow10 k = (if 0 \<le> k then p10 k else 1 / p10 (- k))"

text \<open>\<open>ilog10 a\<close> is the exponent \<open>e\<close> with \<open>10^e \<le> a < 10^(e+1)\<close>, for a positive \<open>a\<close>.\<close>

definition ilog10 :: "rat \<Rightarrow> int" where
  "ilog10 a = (if 1 \<le> a then dlen \<lfloor>a\<rfloor> - 1 else - dlen (\<lceil>1 / a\<rceil> - 1))"

text \<open>
  The correctly rounded decimal representation of a positive number with \<open>n\<close> significant
  digits: the integer of the \<open>n\<close> digits and the decimal exponent of the first digit. The
  exact value is rounded to the nearest, a tie to the even digit, as Python's float
  formatting does; when rounding carries into a new digit the exponent goes up by one.
\<close>

definition sci_digits :: "int \<Rightarrow> rat \<Rightarrow> int \<times> int" where
  "sci_digits n a =
    (let e = ilog10 a;
         m = round_half_even (a / pow10 (e - (n - 1)))
     in if pow10 n \<le> of_int m then (m div 10, e + 1) else (m, e))"

text \<open>The exponent of the \<^verbatim>\<open>e\<close> notation: a sign and at least two digits.\<close>

definition exp_str :: "int \<Rightarrow> string" where
  "exp_str e = (if e < 0 then CHR ''-'' else CHR ''+'')
     # (if \<bar>e\<bar> < 10 then CHR ''0'' # str_nat \<bar>e\<bar> else str_nat \<bar>e\<bar>)"

fun point_after_first :: "string \<Rightarrow> string" where
  "point_after_first [] = []"
| "point_after_first [c] = [c]"
| "point_after_first (c # cs) = c # CHR ''.'' # cs"

function zeros :: "int \<Rightarrow> string" where
  "zeros n = (if n \<le> 0 then [] else CHR ''0'' # zeros (n - 1))"
  by pat_completeness auto
termination
  by (relation "measure nat") auto

declare zeros.simps [simp del]

fun take_int :: "int \<Rightarrow> 'a list \<Rightarrow> 'a list" where
  "take_int n [] = []"
| "take_int n (x # xs) = (if n \<le> 0 then [] else x # take_int (n - 1) xs)"

fun drop_int :: "int \<Rightarrow> 'a list \<Rightarrow> 'a list" where
  "drop_int n [] = []"
| "drop_int n (x # xs) = (if n \<le> 0 then x # xs else drop_int (n - 1) xs)"

definition sign_str :: "double \<Rightarrow> string" where
  "sign_str x = (if signbit x then ''-'' else '''')"

text \<open>
  \<^verbatim>\<open>f"{x:.<prec>e}"\<close>: one digit, the point, \<open>prec\<close> digits, and the exponent. An infinity and NaN
  are rendered by name.
\<close>

definition format_e :: "int \<Rightarrow> double \<Rightarrow> string" where
  "format_e prec x =
    (if is_nan x then ''nan''
     else if is_inf x then sign_str x @ ''inf''
     else if is_zero x
       then sign_str x @ point_after_first (zeros (prec + 1)) @ CHR ''e'' # exp_str 0
     else (case sci_digits (prec + 1) \<bar>val x\<bar> of
             (m, e) \<Rightarrow> sign_str x @ point_after_first (str_nat m) @ CHR ''e'' # exp_str e))"

text \<open>The \<^verbatim>\<open>g\<close> format removes the trailing zeros of the fraction, and the point with them.\<close>

definition strip_zeros :: "string \<Rightarrow> string \<Rightarrow> string" where
  "strip_zeros ip fp =
    (let f = rev (dropWhile (\<lambda>c. c = CHR ''0'') (rev fp))
     in if f = [] then ip else ip @ CHR ''.'' # f)"

text \<open>
  \<^verbatim>\<open>f"{x:.<prec>g}"\<close>: the value is rounded to \<open>prec\<close> significant digits; with the decimal
  exponent \<open>e\<close> of the rounded value, the fixed notation is used when \<open>-4 \<le> e < prec\<close> and
  the \<^verbatim>\<open>e\<close> notation otherwise.
\<close>

definition format_g :: "int \<Rightarrow> double \<Rightarrow> string" where
  "format_g prec x =
    (if is_nan x then ''nan''
     else if is_inf x then sign_str x @ ''inf''
     else if is_zero x then sign_str x @ ''0''
     else (case sci_digits prec \<bar>val x\<bar> of
             (m, e) \<Rightarrow>
               let ds = str_nat m in
               if - 4 \<le> e \<and> e < prec
               then (if 0 \<le> e
                     then sign_str x @ strip_zeros (take_int (e + 1) ds) (drop_int (e + 1) ds)
                     else sign_str x @ strip_zeros ''0'' (zeros (- e - 1) @ ds))
               else sign_str x @ strip_zeros (take_int 1 ds) (drop_int 1 ds)
                      @ CHR ''e'' # exp_str e))"

text \<open>The float literals \<^verbatim>\<open>1e-4\<close> and \<^verbatim>\<open>1e-12\<close> are the doubles nearest to the decimal numbers.\<close>

definition float_1e15 :: double where
  "float_1e15 = Fin 1000000000000000"

definition float_1em4 :: double where
  "float_1em4 = Fin (7378697629483821 / 73786976294838206464)"

definition float_1em12 :: double where
  "float_1em12 = Fin (4951760157141521 / 4951760157141521099596496896)"

text \<open>
  \<^verbatim>\<open>format_result\<close>. The first test of the source selects the \<^verbatim>\<open>e\<close> notation; the second
  converts the float to an int, which raises for NaN, and compares the float with it.
\<close>

definition scientific_range :: "double \<Rightarrow> bool" where
  "scientific_range x =
    (dless float_1e15 (dabs x) \<or> (dless (dabs x) float_1em4 \<and> \<not> deq x (Fin 0)))"

definition format_result :: "double \<Rightarrow> exc + string" where
  "format_result x =
    (if scientific_range x then Inr (format_e 6 x)
     else (case float_to_int trunc x of
             Inl (k, msg) \<Rightarrow> Inl (PyExc k msg)
           | Inr n \<Rightarrow>
              (case int_to_float n of
                 Inl (k, msg) \<Rightarrow> Inl (PyExc k msg)
               | Inr f \<Rightarrow>
                  if dless (dabs (dsub x f)) float_1em12 then Inr (str_int n)
                  else Inr (format_g 10 x))))"

text \<open>The shapes of the outputs, as recognisers of strings.\<close>

definition is_digit :: "char \<Rightarrow> bool" where
  "is_digit c = (c \<in> set ''0123456789'')"

fun strip_sign :: "string \<Rightarrow> string" where
  "strip_sign [] = []"
| "strip_sign (c # cs) = (if c = CHR ''-'' then cs else c # cs)"

text \<open>
  Normalised scientific notation with six digits after the point: an optional minus sign,
  a digit that is not zero, the point, six digits, \<^verbatim>\<open>e\<close>, a sign and two digits or more.
\<close>

definition is_sci6 :: "string \<Rightarrow> bool" where
  "is_sci6 s =
    (case strip_sign s of
       d # p # f1 # f2 # f3 # f4 # f5 # f6 # e # sg # x1 # x2 # xs \<Rightarrow>
         is_digit d \<and> d \<noteq> CHR ''0'' \<and> p = CHR ''.''
         \<and> list_all is_digit [f1, f2, f3, f4, f5, f6]
         \<and> e = CHR ''e'' \<and> (sg = CHR ''+'' \<or> sg = CHR ''-'')
         \<and> list_all is_digit (x1 # x2 # xs)
     | _ \<Rightarrow> False)"

text \<open>A plain integer: an optional minus sign and digits, nothing else.\<close>

definition is_plain_int :: "string \<Rightarrow> bool" where
  "is_plain_int s = (strip_sign s \<noteq> [] \<and> list_all is_digit (strip_sign s))"

section \<open>A tabulated runtime\<close>

text \<open>
  A concrete runtime, used to instantiate the theorems on concrete inputs. It tabulates what
  the libraries return on the inputs of the examples: the trees of \<^verbatim>\<open>ast.parse\<close> for five
  source strings, three values of \<^verbatim>\<open>pow\<close>, \<^verbatim>\<open>math.log(8.0, 2.0)\<close> and the overflow of
  \<^verbatim>\<open>math.exp(1000.0)\<close>. Outside the table it raises \<^verbatim>\<open>MemoryError\<close>, which nothing in the
  program catches.
\<close>

definition tabulated_parse :: "string \<Rightarrow> builtin_exc + node" where
  "tabulated_parse s =
    (if s = ''True'' then Inr (Expression (Constant (CBool True)))
     else if s = ''False'' then Inr (Expression (Constant (CBool False)))
     else if s = quoted ''abc'' then Inr (Expression (Constant (CStr ''abc'')))
     else if s = ''2**3**1'' then Inr (Expression
       (BinOp (Constant (CInt 2)) Pow (BinOp (Constant (CInt 3)) Pow (Constant (CInt 1)))))
     else if s = ''x = 1'' then Inl (SyntaxError, ''invalid syntax'')
     else Inl (MemoryError, ''not tabulated''))"

definition tabulated_pow :: "double \<Rightarrow> double \<Rightarrow> builtin_exc + double" where
  "tabulated_pow x y =
    (if x = Fin 3 \<and> y = Fin 1 then Inr (Fin 3)
     else if x = Fin 2 \<and> y = Fin 3 then Inr (Fin 8)
     else if x = Fin 8 \<and> y = Fin 1 then Inr (Fin 8)
     else Inl (MemoryError, ''not tabulated''))"

definition tabulated_runtime :: runtime where
  "tabulated_runtime =
    \<lparr> ast_parse = tabulated_parse,
      math_fn = (\<lambda>name x. if name = ''exp'' \<and> x = Fin 1000
                   then Inl (OverflowError, ''math range error'')
                   else Inl (MemoryError, ''not tabulated'')),
      math_log_base = (\<lambda>x b. if x = Fin 8 \<and> b = Fin 2 then Inr (Fin 3)
                         else Inl (MemoryError, ''not tabulated'')),
      math_type_error = (\<lambda>name args. ''wrong arguments''),
      libm_pow = tabulated_pow,
      complex_pow = (\<lambda>v w. Inl (MemoryError, ''not tabulated'')),
      complex_arith = (\<lambda>op v w. PyComplex NaN NaN),
      complex_abs = (\<lambda>re im. Inl (MemoryError, ''not tabulated'')) \<rparr>"

section \<open>The allowlists\<close>

lemma sort_allowed_functions:
  "sort allowed_functions =
    [''abs'', ''acos'', ''asin'', ''atan'', ''ceil'', ''cos'', ''cosh'', ''degrees'', ''exp'',
     ''floor'', ''log'', ''log10'', ''radians'', ''round'', ''sin'', ''sinh'', ''sqrt'',
     ''tan'', ''tanh'']"
  by code_simp

lemma call_not_allowed_message:
  "call_not_allowed = EvalError
    ''Function calls are not allowed except math functions: abs, acos, asin, atan, ceil, cos, cosh, degrees, exp, floor, log, log10, radians, round, sin, sinh, sqrt, tan, tanh''"
  by (simp add: call_not_allowed_def sort_allowed_functions)

lemma constants_None:
  "name \<notin> {''pi'', ''e'', ''tau'', ''inf''} \<Longrightarrow> constants name = None"
  by (simp add: constants_def)

lemma distinct_allowed_functions: "distinct allowed_functions"
  by (simp add: allowed_functions_def)

lemma length_allowed_functions: "length allowed_functions = 19"
  by (simp add: allowed_functions_def)

lemma call_not_a_listed_name:
  "(\<forall>n. func = Name n \<longrightarrow> n \<notin> set allowed_functions) \<Longrightarrow>
    safe_eval rt (Call func args kws) = Inl call_not_allowed"
  by (cases func) simp_all

text \<open>
  Claim C1, as the code has it. A name that is not one of \<^verbatim>\<open>pi\<close>, \<^verbatim>\<open>e\<close>, \<^verbatim>\<open>tau\<close>, \<^verbatim>\<open>inf\<close> fails
  with \<^verbatim>\<open>EvalError("Undefined variable: <name>")\<close>. A call whose callee is not a bare name of
  the function table fails, whatever its arguments and before any of them is evaluated,
  with the \<^verbatim>\<open>EvalError\<close> whose message lists the allowed names in sorted order. The table
  has 19 names.
\<close>

theorem allowlist_enforcement:
  "(name \<notin> {''pi'', ''e'', ''tau'', ''inf''} \<longrightarrow>
      safe_eval rt (Name name) = Inl (EvalError (''Undefined variable: '' @ name)))
   \<and> ((\<forall>n. func = Name n \<longrightarrow> n \<notin> set allowed_functions) \<longrightarrow>
      safe_eval rt (Call func args kws) = Inl (EvalError
        ''Function calls are not allowed except math functions: abs, acos, asin, atan, ceil, cos, cosh, degrees, exp, floor, log, log10, radians, round, sin, sinh, sqrt, tan, tanh''))
   \<and> card (set allowed_functions) = 19"
  using call_not_a_listed_name [of func rt args kws]
  by (simp add: constants_None call_not_allowed_message distinct_card
      distinct_allowed_functions length_allowed_functions)

theorem allowlist_enforcement_witness:
  "safe_eval tabulated_runtime (Name ''foo'') = Inl (EvalError ''Undefined variable: foo'')
   \<and> safe_eval tabulated_runtime
        (Call (Attribute (Name ''math'') ''sqrt'')
           [BinOp (Constant (CInt 1)) Div (Constant (CInt 0))] [])
      = Inl (EvalError
        ''Function calls are not allowed except math functions: abs, acos, asin, atan, ceil, cos, cosh, degrees, exp, floor, log, log10, radians, round, sin, sinh, sqrt, tan, tanh'')"
  using allowlist_enforcement [of "''foo''" tabulated_runtime
      "Attribute (Name ''math'') ''sqrt''" "[BinOp (Constant (CInt 1)) Div (Constant (CInt 0))]" "[]"]
  by simp

text \<open>Claim C1 speaks of a table of 18 names; the table of the code does not have 18.\<close>

theorem function_table_has_18_names_counterexample:
  "card (set allowed_functions) \<noteq> 18"
  by (simp add: distinct_card distinct_allowed_functions length_allowed_functions)

section \<open>Exceptions that are not caught\<close>

text \<open>
  Claim C2 at the input \<^verbatim>\<open>abs()\<close>: the name is allowed, the argument list is empty, and
  \<^verbatim>\<open>args[0]\<close> raises \<^verbatim>\<open>IndexError\<close>, which is not one of the three classes the \<^verbatim>\<open>except\<close>
  clause of the call names. The evaluation ends with an exception that is not an
  \<^verbatim>\<open>EvalError\<close>.
\<close>

theorem abs_without_argument_is_uncaught:
  "safe_eval rt (Call (Name ''abs'') [] []) = Inl (PyExc IndexError ''list index out of range'')"
  by (simp add: allowed_functions_def call_function_def)

section \<open>Parsing and evaluation\<close>






text \<open>
  Claim C9: \<^verbatim>\<open>True\<close> and \<^verbatim>\<open>False\<close> parse to constants whose value is a \<^verbatim>\<open>bool\<close>; the test
  \<^verbatim>\<open>isinstance(node.value, (int, float))\<close> holds for a \<^verbatim>\<open>bool\<close>, and \<^verbatim>\<open>float\<close> makes 1.0 and 0.0
  of them.
\<close>

theorem boolean_literals_are_numbers:
  "(ast_parse rt ''True'' = Inr (Expression (Constant (CBool True))) \<longrightarrow>
      evaluate_expression rt ''True'' = Inr (PyFloat (Fin 1)))
   \<and> (ast_parse rt ''False'' = Inr (Expression (Constant (CBool False))) \<longrightarrow>
      evaluate_expression rt ''False'' = Inr (PyFloat (Fin 0)))
   \<and> safe_eval rt (Constant (CBool b)) = Inr (PyFloat (if b then Fin 1 else Fin 0))"
  by (simp add: evaluate_expression_def)

theorem boolean_literals_are_numbers_witness:
  "evaluate_expression tabulated_runtime ''True'' = Inr (PyFloat (Fin 1))
   \<and> evaluate_expression tabulated_runtime ''False'' = Inr (PyFloat (Fin 0))"
proof -
  have p1: "ast_parse tabulated_runtime ''True'' = Inr (Expression (Constant (CBool True)))"
    by (simp add: tabulated_runtime_def tabulated_parse_def)
  have p2: "ast_parse tabulated_runtime ''False'' = Inr (Expression (Constant (CBool False)))"
    by (simp add: tabulated_runtime_def tabulated_parse_def)
  show ?thesis
    using boolean_literals_are_numbers [of tabulated_runtime True] p1 p2 by simp
qed

section \<open>Division by zero\<close>

lemma binop_div_zero:
  "is_zero z \<Longrightarrow> binop rt Div a (PyFloat z) =
     Inl (ZeroDivisionError,
       (case a of PyFloat _ \<Rightarrow> ''float division by zero''
                | PyComplex _ _ \<Rightarrow> ''complex division by zero''))"
  by (cases a) (simp_all add: float_div_def)

text \<open>
  Claim C4, as the code has it. Python raises \<^verbatim>\<open>ZeroDivisionError\<close> for a float division by
  zero, and the \<^verbatim>\<open>except Exception\<close> of the \<^verbatim>\<open>BinOp\<close> branch turns it into an \<^verbatim>\<open>EvalError\<close>: for
  every left operand that evaluates to a value and every right operand that evaluates to a
  zero of either sign, the division fails with \<^verbatim>\<open>EvalError\<close>; no infinity and no NaN is
  returned.
\<close>

theorem division_by_zero_is_an_error:
  "safe_eval rt l = Inr a \<Longrightarrow> safe_eval rt r = Inr (PyFloat z) \<Longrightarrow> is_zero z \<Longrightarrow>
    safe_eval rt (BinOp l Div r) = Inl (EvalError (''Error evaluating binary op: '' @
       (case a of PyFloat _ \<Rightarrow> ''float division by zero''
                | PyComplex _ _ \<Rightarrow> ''complex division by zero'')))"
  by (simp add: binop_div_zero)

theorem division_by_zero_is_an_error_witness:
  "safe_eval tabulated_runtime
     (BinOp (Constant (CInt 1)) Div (UnaryOp USub (Constant (CFloat (Fin 0)))))
     = Inl (EvalError ''Error evaluating binary op: float division by zero'')"
proof -
  have l: "safe_eval tabulated_runtime (Constant (CInt 1)) = Inr (PyFloat (Fin 1))"
    by code_simp
  have r: "safe_eval tabulated_runtime (UnaryOp USub (Constant (CFloat (Fin 0))))
             = Inr (PyFloat NegZero)"
    by simp
  have z: "is_zero NegZero" by simp
  show ?thesis
    using division_by_zero_is_an_error [OF l r z] by simp
qed

text \<open>Claim C4 at the input \<^verbatim>\<open>1/0\<close>: the result is an error, not an infinity.\<close>

theorem division_by_zero_counterexample:
  "safe_eval tabulated_runtime (BinOp (Constant (CInt 1)) Div (Constant (CInt 0)))
     = Inl (EvalError ''Error evaluating binary op: float division by zero'')"
  by code_simp

section \<open>The sign of the remainder\<close>

text \<open>Rounding keeps the sign, also when it underflows to a zero or overflows.\<close>

lemma p2_pos: "0 < p2 k"
proof (induction k rule: p2.induct)
  case (1 k)
  show ?case
  proof (cases "k \<le> 0")
    case True
    then show ?thesis by (simp add: p2.simps [of k])
  next
    case False
    with 1 have "0 < p2 (k div 2)" by (cases "even k") auto
    then show ?thesis using False by (simp add: p2.simps [of k] sq_def)
  qed
qed

lemma pow2_pos: "0 < pow2 k"
  by (simp add: pow2_def p2_pos)

lemma round_half_even_nonneg: "0 \<le> q \<Longrightarrow> 0 \<le> round_half_even q"
  by (auto simp: round_half_even_def Let_def)

lemma rnd_sign: "q \<noteq> 0 \<Longrightarrow> \<not> is_nan (rnd q) \<and> signbit (rnd q) = (q < 0)"
proof -
  assume q: "q \<noteq> 0"
  define p where "p = max (ilog2 \<bar>q\<bar> - 52) (- 1074)"
  define m where "m = round_half_even (\<bar>q\<bar> / pow2 p)"
  have "0 \<le> \<bar>q\<bar> / pow2 p" using pow2_pos [of p] by simp
  then have m0: "0 \<le> m" unfolding m_def by (rule round_half_even_nonneg)
  have r: "m \<noteq> 0 \<Longrightarrow> 0 < of_int m * pow2 p"
    using m0 pow2_pos [of p] by simp
  show ?thesis
    using q r unfolding rnd_def Let_def p_def [symmetric] m_def [symmetric]
    by (auto simp: not_less)
qed

lemma fmod_remainder_bounds:
  fixes x y :: rat
  assumes "0 < y" and "0 \<le> x"
  shows "0 \<le> x - of_int \<lfloor>x / y\<rfloor> * y" and "x - of_int \<lfloor>x / y\<rfloor> * y < y"
proof -
  have "of_int \<lfloor>x / y\<rfloor> * y \<le> (x / y) * y"
    using assms(1) by (intro mult_right_mono) auto
  then show "0 \<le> x - of_int \<lfloor>x / y\<rfloor> * y" using assms(1) by simp
  have "x / y < of_int \<lfloor>x / y\<rfloor> + 1" by linarith
  then have "(x / y) * y < (of_int \<lfloor>x / y\<rfloor> + 1) * y"
    using assms(1) by (intro mult_strict_right_mono) auto
  then show "x - of_int \<lfloor>x / y\<rfloor> * y < y" using assms(1) by (simp add: algebra_simps)
qed

lemma float_rem_finite:
  assumes "qa \<noteq> 0" and "qb \<noteq> 0"
  shows "\<exists>x. float_rem (Fin qa) (Fin qb) = Inr x \<and> \<not> is_nan x \<and> signbit x = (qb < 0)"
proof -
  define r where "r = \<bar>qa\<bar> - of_int \<lfloor>\<bar>qa\<bar> / \<bar>qb\<bar>\<rfloor> * \<bar>qb\<bar>"
  have r0: "0 \<le> r" and r1: "r < \<bar>qb\<bar>"
    using fmod_remainder_bounds [of "\<bar>qb\<bar>" "\<bar>qa\<bar>"] assms unfolding r_def by simp_all
  have fm: "fmod (Fin qa) (Fin qb) =
      (if r = 0 then signed_zero (qa < 0) else Fin (if qa < 0 then - r else r))"
    using assms by (simp add: fmod_def r_def Let_def)
  show ?thesis
  proof (cases "r = 0")
    case True
    then show ?thesis using assms fm
      by (simp add: float_rem_def signed_zero_def copysign_def)
  next
    case False
    then have rpos: "0 < r" using r0 by simp
    show ?thesis
    proof (cases "(qb < 0) = (qa < 0)")
      case True
      then show ?thesis using assms fm False rpos
        by (auto simp: float_rem_def dless_def)
    next
      case diff: False
      define s where "s = (if qa < 0 then - r else r) + qb"
      have s_ne: "s \<noteq> 0" and s_sign: "(s < 0) = (qb < 0)"
        using diff rpos r1 assms unfolding s_def by (auto simp: abs_if split: if_splits)
      have "float_rem (Fin qa) (Fin qb) = Inr (rnd s)"
        using assms fm False rpos diff s_ne
        by (auto simp: float_rem_def dless_def dadd_def s_def)
      then show ?thesis using rnd_sign [OF s_ne] s_sign by simp
    qed
  qed
qed

lemma float_rem_sign:
  assumes "\<not> is_zero b"
  shows "\<exists>x. float_rem a b = Inr x
     \<and> (if is_nan a \<or> is_inf a \<or> is_nan b then is_nan x
        else \<not> is_nan x \<and> signbit x = signbit b)"
proof (cases "\<exists>qa qb. a = Fin qa \<and> b = Fin qb \<and> qa \<noteq> 0")
  case True
  then obtain qa qb where ab: "a = Fin qa" "b = Fin qb" "qa \<noteq> 0" by blast
  then have "qb \<noteq> 0" using assms by simp
  then show ?thesis using float_rem_finite [OF ab(3), of qb] ab by simp
next
  case False
  then show ?thesis using assms
    by (cases a; cases b)
       (auto simp: float_rem_def fmod_def dless_def dadd_def copysign_def Let_def)
qed

text \<open>
  Claim C5, as the code has it. For a divisor that is not zero the remainder \<^verbatim>\<open>a % b\<close> of two
  floats is a float; it is NaN exactly when the dividend is NaN or infinite or the divisor is
  NaN, and otherwise it has the sign of the right operand, the divisor (a zero remainder
  has the divisor's sign bit).
\<close>

theorem modulo_sign_follows_divisor:
  assumes "safe_eval rt l = Inr (PyFloat a)" and "safe_eval rt r = Inr (PyFloat b)"
    and "\<not> is_zero b"
  shows "\<exists>x. safe_eval rt (BinOp l Mod r) = Inr (PyFloat x)
     \<and> (if is_nan a \<or> is_inf a \<or> is_nan b then is_nan x
        else \<not> is_nan x \<and> signbit x = signbit b)"
proof -
  obtain x where x: "float_rem a b = Inr x"
    and s: "if is_nan a \<or> is_inf a \<or> is_nan b then is_nan x
            else \<not> is_nan x \<and> signbit x = signbit b"
    using float_rem_sign [OF assms(3), of a] by blast
  have "safe_eval rt (BinOp l Mod r) = Inr (PyFloat x)"
    using assms(1,2) x by simp
  then show ?thesis using s by blast
qed

theorem modulo_sign_follows_divisor_witness:
  "\<exists>x. safe_eval tabulated_runtime
          (BinOp (Constant (CInt 7)) Mod (UnaryOp USub (Constant (CInt 3)))) = Inr (PyFloat x)
     \<and> \<not> is_nan x \<and> signbit x"
proof -
  have l: "safe_eval tabulated_runtime (Constant (CInt 7)) = Inr (PyFloat (Fin 7))"
    by code_simp
  have r: "safe_eval tabulated_runtime (UnaryOp USub (Constant (CInt 3))) = Inr (PyFloat (Fin (- 3)))"
    by code_simp
  have z: "\<not> is_zero (Fin (- 3))" by simp
  show ?thesis
    using modulo_sign_follows_divisor [OF l r z] by simp
qed

text \<open>
  Claim C5 at \<^verbatim>\<open>-7 % 3\<close>: the left operand is negative and the result is 2, which has the sign
  of the right operand.
\<close>

theorem modulo_sign_of_dividend_counterexample:
  "safe_eval tabulated_runtime (UnaryOp USub (Constant (CInt 7))) = Inr (PyFloat (Fin (- 7)))
   \<and> safe_eval tabulated_runtime (Constant (CInt 3)) = Inr (PyFloat (Fin 3))
   \<and> safe_eval tabulated_runtime
        (BinOp (UnaryOp USub (Constant (CInt 7))) Mod (Constant (CInt 3))) = Inr (PyFloat (Fin 2))"
  by code_simp

section \<open>Argument counts\<close>

lemma safe_eval_args_length:
  "safe_eval_args rt args = Inr vs \<Longrightarrow> length vs = length args"
  by (induction args arbitrary: vs) (auto split: sum.splits)

lemma math_call_wrong_arity:
  "func_name \<noteq> ''log'' \<Longrightarrow> length vs \<noteq> 1 \<Longrightarrow>
    math_call rt func_name vs =
      (if func_name = ''round''
       then Inl (AttributeError,
              ''module '' @ quoted ''math'' @ '' has no attribute '' @ quoted ''round'')
       else Inl (TypeError, math_type_error rt func_name vs))"
  by (auto simp: math_call_def split: list.splits pyval.splits)

lemma call_wrong_arity:
  assumes "func_name \<in> set allowed_functions"
    and "func_name \<noteq> ''abs''" and "func_name \<noteq> ''log''"
    and "safe_eval_args rt args = Inr vs" and "length args \<noteq> 1"
  shows "safe_eval rt (Call (Name func_name) args kws) =
    Inl (EvalError (''Error calling '' @ func_name @ '': '' @
      (if func_name = ''round''
       then ''module '' @ quoted ''math'' @ '' has no attribute '' @ quoted ''round''
       else math_type_error rt func_name vs)))"
proof -
  have len: "length vs \<noteq> 1" using safe_eval_args_length [OF assms(4)] assms(5) by simp
  have "call_function rt func_name vs = math_call rt func_name vs"
    using assms(2) len by (simp add: call_function_def)
  then show ?thesis
    using assms(1,4) math_call_wrong_arity [OF assms(3) len, of rt] by simp
qed

lemma call_log_with_base:
  assumes "safe_eval_args rt args = Inr [PyFloat x, PyFloat b]"
    and "math_log_base rt x b = Inr y"
  shows "safe_eval rt (Call (Name ''log'') args kws) = Inr (PyFloat y)"
  using assms by (simp add: allowed_functions_def call_function_def math_call_def)

text \<open>
  Claim C6, as the code has it. The evaluator has no arity table: it passes the argument
  list to the library function and reports the library's exception. For an allowed name
  other than \<^verbatim>\<open>abs\<close> and \<^verbatim>\<open>log\<close> and an argument list of a length other than 1, whose arguments
  evaluate, the call fails with \<^verbatim>\<open>EvalError("Error calling <name>: <message>")\<close>, where the
  message is that of the library's \<^verbatim>\<open>TypeError\<close>, or for \<^verbatim>\<open>round\<close> that of the \<^verbatim>\<open>AttributeError\<close>
  for the missing \<^verbatim>\<open>math.round\<close>. \<^verbatim>\<open>log\<close> also takes two arguments, the value and the base.
\<close>

theorem wrong_argument_count_is_an_error:
  "(func_name \<in> set allowed_functions \<and> func_name \<noteq> ''abs'' \<and> func_name \<noteq> ''log''
      \<and> safe_eval_args rt args = Inr vs \<and> length args \<noteq> 1 \<longrightarrow>
    safe_eval rt (Call (Name func_name) args kws) =
      Inl (EvalError (''Error calling '' @ func_name @ '': '' @
        (if func_name = ''round''
         then ''module '' @ quoted ''math'' @ '' has no attribute '' @ quoted ''round''
         else math_type_error rt func_name vs))))
   \<and> (safe_eval_args rt args' = Inr [PyFloat x, PyFloat b] \<and> math_log_base rt x b = Inr y \<longrightarrow>
    safe_eval rt (Call (Name ''log'') args' kws) = Inr (PyFloat y))"
  using call_wrong_arity [of func_name rt args vs kws] call_log_with_base [of rt args' x b y kws]
  by blast

theorem wrong_argument_count_is_an_error_witness:
  "safe_eval tabulated_runtime (Call (Name ''sqrt'') [Constant (CInt 1), Constant (CInt 2)] [])
     = Inl (EvalError ''Error calling sqrt: wrong arguments'')
   \<and> safe_eval tabulated_runtime (Call (Name ''log'') [Constant (CInt 8), Constant (CInt 2)] [])
     = Inr (PyFloat (Fin 3))"
proof -
  have a: "''sqrt'' \<in> set allowed_functions" by (simp add: allowed_functions_def)
  have d: "safe_eval_args tabulated_runtime [Constant (CInt 1), Constant (CInt 2)]
             = Inr [PyFloat (Fin 1), PyFloat (Fin 2)]"
    by code_simp
  have e: "safe_eval_args tabulated_runtime [Constant (CInt 8), Constant (CInt 2)]
             = Inr [PyFloat (Fin 8), PyFloat (Fin 2)]"
    by code_simp
  have f: "math_log_base tabulated_runtime (Fin 8) (Fin 2) = Inr (Fin 3)"
    by (simp add: tabulated_runtime_def)
  have g: "math_type_error tabulated_runtime ''sqrt'' [PyFloat (Fin 1), PyFloat (Fin 2)]
             = ''wrong arguments''"
    by (simp add: tabulated_runtime_def)
  show ?thesis
    using wrong_argument_count_is_an_error
            [of "''sqrt''" tabulated_runtime "[Constant (CInt 1), Constant (CInt 2)]"
               "[PyFloat (Fin 1), PyFloat (Fin 2)]" "[]"
               "[Constant (CInt 8), Constant (CInt 2)]" "Fin 8" "Fin 2" "Fin 3"]
          a d e f g
    by simp
qed

text \<open>Claim C6 at \<^verbatim>\<open>log(8, 2)\<close>: two arguments, and the call returns 3.0.\<close>

theorem log_takes_two_arguments_counterexample:
  "safe_eval tabulated_runtime (Call (Name ''log'') [Constant (CInt 8), Constant (CInt 2)] [])
     = Inr (PyFloat (Fin 3))"
  by code_simp

text \<open>
  \<^verbatim>\<open>abs\<close> reads \<^verbatim>\<open>args[0]\<close> and never looks at the length of the list: \<^verbatim>\<open>abs(-5, 99)\<close> is 5.0.
\<close>

lemma abs_ignores_extra_arguments:
  "safe_eval rt
     (Call (Name ''abs'') [UnaryOp USub (Constant (CInt 5)), Constant (CInt 99)] [])
     = Inr (PyFloat (Fin 5))"
  by code_simp


section \<open>The power operator\<close>




section \<open>The formatter\<close>

text \<open>
  Claim C10: NaN is in neither range of the first test of \<^verbatim>\<open>format_result\<close>, and the second
  test converts it to an int, which raises \<^verbatim>\<open>ValueError\<close>; nothing catches it.
\<close>

theorem format_result_raises_on_NaN:
  "\<not> scientific_range NaN
   \<and> format_result NaN = Inl (PyExc ValueError ''cannot convert float NaN to integer'')"
  by (simp add: format_result_def scientific_range_def dless_def deq_def float_to_int_def)

end
